theory Spec2Isabelle
  imports Main "HOL-Library.Word" "HOL-Library.Signed_Division"
begin

section \<open>enc\_png: writing a PNG stream to memory\<close>

text \<open>
  The source is \<^verbatim>\<open>src/enc_png.c\<close>: the struct \<^verbatim>\<open>png_stream\<close>, the write callback
  \<^verbatim>\<open>user_write_data\<close>, the empty flush callback and \<^verbatim>\<open>enc_png\<close>. Compression, filtering
  and chunk framing are done by libpng, which is not part of the repository: it appears
  here as a parameter (record \<open>extern\<close>) that says what each library call answers.
\<close>

subsection \<open>Integers, bytes and memory\<close>

text \<open>
  \<^verbatim>\<open>typedef int g2int\<close>: values are modelled as \<open>int\<close>, with the range of a
  32-bit \<^verbatim>\<open>int\<close> written out where the C arithmetic can leave it. Signed overflow
  is undefined in C: such a place is a branch of the model without a result
  (\<open>None\<close>, \<open>UB\<close>, \<open>Undefined\<close>). The conversion to \<^verbatim>\<open>int\<close> of a value that does
  not fit is defined by the implementation, which reduces it modulo \<open>2 ^ 32\<close>
  (\<open>to_g2int\<close>): such a place has a result, the wrapped one.
\<close>

type_synonym byte = "8 word"
type_synonym addr = int
type_synonym memory = "addr \<Rightarrow> byte"

definition INT_MAX :: int where
  "INT_MAX = 2147483647"

definition INT_MIN :: int where
  "INT_MIN = - 2147483648"

definition in_int :: "int \<Rightarrow> bool" where
  "in_int v \<longleftrightarrow> INT_MIN \<le> v \<and> v \<le> INT_MAX"

definition to_g2int :: "int \<Rightarrow> int" where
  "to_g2int v = (v + 2147483648) mod 4294967296 - 2147483648"

text \<open>
  One byte-addressed memory holds all the caller's objects: the pixel buffer, the
  output buffer and the \<^verbatim>\<open>g2int\<close> objects behind \<^verbatim>\<open>width\<close>, \<^verbatim>\<open>height\<close> and
  \<^verbatim>\<open>nbits\<close>. Pointers are addresses, and any two of them may point into the same
  object. A \<^verbatim>\<open>g2int\<close> occupies four bytes, the least significant first, in two's
  complement; \<open>load_g2int m p\<close> is the value of \<^verbatim>\<open>*p\<close>.
\<close>

definition load_g2int :: "memory \<Rightarrow> addr \<Rightarrow> int" where
  "load_g2int m p =
     to_g2int (uint (m p) + 256 * uint (m (p + 1)) + 65536 * uint (m (p + 2))
               + 16777216 * uint (m (p + 3)))"

definition memcpy :: "memory \<Rightarrow> addr \<Rightarrow> byte list \<Rightarrow> memory" where
  "memcpy m dst src =
     (\<lambda>a. if dst \<le> a \<and> a < dst + int (length src) then src ! nat (a - dst) else m a)"

subsection \<open>The memory sink\<close>

record png_stream =
  stream_ptr :: addr
  stream_len :: int

text \<open>
  \<^verbatim>\<open>user_write_data(png_ptr, data, length)\<close>: the sink is the object registered with
  \<^verbatim>\<open>png_set_write_fn\<close>; the chunk is the byte list \<open>data\<close>, its length the list's.
  The source checks nothing: the bytes go to \<^verbatim>\<open>ptr + offset\<close> wherever that is, and
  \<^verbatim>\<open>mem->stream_len += length\<close> adds a \<^verbatim>\<open>png_uint_32\<close> to an \<^verbatim>\<open>int\<close>: the sum
  is formed unsigned and converted back, so it wraps.
\<close>

definition user_write_data :: "memory \<times> png_stream \<Rightarrow> byte list \<Rightarrow> memory \<times> png_stream" where
  "user_write_data ms data =
     (let (m, mem) = ms;
          ptr = stream_ptr mem;
          offset = stream_len mem
      in (memcpy m (ptr + offset) data,
          mem\<lparr>stream_len := to_g2int (stream_len mem + int (length data))\<rparr>))"

text \<open>\<^verbatim>\<open>user_flush_data\<close> has an empty body.\<close>

definition user_flush_data :: "memory \<times> png_stream \<Rightarrow> memory \<times> png_stream" where
  "user_flush_data ms = ms"

text \<open>The engine calls the write callback once per chunk, in order.\<close>

fun write_chunks :: "memory \<times> png_stream \<Rightarrow> byte list list \<Rightarrow> memory \<times> png_stream" where
  "write_chunks ms [] = ms"
| "write_chunks ms (d # ds) = write_chunks (user_write_data ms d) ds"

subsection \<open>The library calls\<close>

datatype color_type = PNG_COLOR_TYPE_GRAY | PNG_COLOR_TYPE_RGB | PNG_COLOR_TYPE_RGB_ALPHA

text \<open>
  What lies outside \<^verbatim>\<open>enc_png.c\<close>: whether the two libpng allocations and \<^verbatim>\<open>malloc\<close>
  succeed, whether \<^verbatim>\<open>png_set_IHDR\<close> accepts its arguments (\<open>False\<close>: it calls
  \<^verbatim>\<open>png_error\<close>, which jumps back to the \<^verbatim>\<open>setjmp\<close>), and what \<^verbatim>\<open>png_write_png\<close> does
  with the memory, the header and the rows it is given: the chunks it hands to the write
  callback and whether it returns (\<open>True\<close>) or jumps after them.
  \<^verbatim>\<open>png_set_write_fn\<close> and \<^verbatim>\<open>png_set_rows\<close> only record their arguments. The engine
  stores to the caller's memory through the write callback only.
\<close>

record extern =
  create_write_struct_ok :: bool
  create_info_struct_ok :: bool
  set_IHDR_ok :: "int \<Rightarrow> int \<Rightarrow> int \<Rightarrow> color_type \<Rightarrow> bool"
  malloc_ok :: bool
  write_png :: "memory \<Rightarrow> int \<times> int \<times> int \<times> color_type \<Rightarrow> addr list \<Rightarrow> byte list list \<times> bool"

text \<open>The calls and callbacks of one run, in order.\<close>

datatype event =
    Create_write_struct bool
  | Create_info_struct bool
  | Destroy_write_struct bool
  | Set_write_fn
  | Set_IHDR int int int color_type
  | Malloc bool
  | Set_rows "addr list"
  | Write_png
  | Write "byte list"
  | Longjmp
  | Free

text \<open>
  \<^verbatim>\<open>png_set_IHDR\<close> takes width and height as \<^verbatim>\<open>png_uint_32\<close>: the conversion of the
  \<^verbatim>\<open>g2int\<close> argument is modulo \<open>2 ^ 32\<close>.
\<close>

definition png_uint_32 :: "int \<Rightarrow> int" where
  "png_uint_32 v = v mod 2 ^ 32"

subsection \<open>enc\_png\<close>

text \<open>Lines 118 to 129: bit depth and colour type.\<close>

definition bit_depth_color_type :: "int \<Rightarrow> int \<times> color_type" where
  "bit_depth_color_type nbits =
     (if nbits = 24 then (8, PNG_COLOR_TYPE_RGB)
      else if nbits = 32 then (8, PNG_COLOR_TYPE_RGB_ALPHA)
      else (nbits, PNG_COLOR_TYPE_GRAY))"

text \<open>
  \<^verbatim>\<open>j * (*width) * bytes\<close> in \<^verbatim>\<open>int\<close> arithmetic, left to right; signed overflow is
  undefined.
\<close>

definition row_offset :: "int \<Rightarrow> int \<Rightarrow> int \<Rightarrow> int option" where
  "row_offset j width bytes =
     (if in_int (j * width) \<and> in_int (j * width * bytes) then Some (j * width * bytes) else None)"

text \<open>
  The loop of lines 137 and 138. \<open>row_pointers\<close> holds the entries stored so far;
  \<^verbatim>\<open>row_pointers[j]\<close> is the next one.
\<close>

function fill_rows :: "addr \<Rightarrow> int \<Rightarrow> int \<Rightarrow> int \<Rightarrow> int \<Rightarrow> addr list \<Rightarrow> addr list option" where
  "fill_rows data width height bytes j row_pointers =
     (if j < height then
        (case row_offset j width bytes of
           None \<Rightarrow> None
         | Some off \<Rightarrow> fill_rows data width height bytes (j + 1) (row_pointers @ [data + off]))
      else Some row_pointers)"
  by pat_completeness auto
termination
  by (relation "measure (\<lambda>(data, width, height, bytes, j, row_pointers). nat (height - j))") auto

declare fill_rows.simps [simp del]

text \<open>How the stretch of code after \<^verbatim>\<open>setjmp\<close> ends.\<close>

datatype flow = Normal png_stream | Jump | UB

text \<open>
  Lines 109 to 142. A failed \<^verbatim>\<open>malloc\<close> is not checked by the source: the first store
  \<^verbatim>\<open>row_pointers[0] = ...\<close> then goes through a null pointer.
\<close>

definition encode :: "extern \<Rightarrow> memory \<Rightarrow> addr \<Rightarrow> int \<Rightarrow> int \<Rightarrow> int \<Rightarrow> addr \<Rightarrow> flow \<times> memory \<times> event list" where
  "encode x m data width height nbits pngbuf =
     (let write_io_ptr = \<lparr>stream_ptr = pngbuf, stream_len = 0\<rparr>;
          (bit_depth, color_type) = bit_depth_color_type nbits;
          w = png_uint_32 width;
          h = png_uint_32 height;
          t1 = [Set_write_fn, Set_IHDR w h bit_depth color_type]
      in if \<not> set_IHDR_ok x w h bit_depth color_type then (Jump, m, t1 @ [Longjmp])
         else
           let bytes = nbits sdiv 8;
               t2 = t1 @ [Malloc (malloc_ok x)]
           in if \<not> malloc_ok x \<and> 0 < height then (UB, m, t2)
              else
                (case fill_rows data width height bytes 0 [] of
                   None \<Rightarrow> (UB, m, t2)
                 | Some row_pointers \<Rightarrow>
                     let t3 = t2 @ [Set_rows row_pointers, Write_png];
                         (chunks, returns) = write_png x m (w, h, bit_depth, color_type) row_pointers;
                         (m', mem) = write_chunks (m, write_io_ptr) chunks
                     in if returns then (Normal mem, m', t3 @ map Write chunks)
                        else (Jump, m', t3 @ map Write chunks @ [Longjmp])))"

datatype outcome = Return int | Undefined

text \<open>
  \<^verbatim>\<open>enc_png(data, width, height, nbits, pngbuf)\<close>. The result is the returned
  \<^verbatim>\<open>int\<close>, the memory after the call and the calls made. The source reads
  \<^verbatim>\<open>*width\<close>, \<^verbatim>\<open>*height\<close> and \<^verbatim>\<open>*nbits\<close> several times, all of them before
  \<^verbatim>\<open>png_write_png\<close>, the only call under which memory is written: every read sees
  the memory the call started with.
\<close>

definition enc_png :: "extern \<Rightarrow> memory \<Rightarrow> addr \<Rightarrow> addr \<Rightarrow> addr \<Rightarrow> addr \<Rightarrow> addr \<Rightarrow> outcome \<times> memory \<times> event list" where
  "enc_png x m data width height nbits pngbuf =
     (if \<not> create_write_struct_ok x then (Return (- 1), m, [Create_write_struct False])
      else if \<not> create_info_struct_ok x then
        (Return (- 2), m,
         [Create_write_struct True, Create_info_struct False, Destroy_write_struct False])
      else
        let t0 = [Create_write_struct True, Create_info_struct True]
        in (case encode x m data (load_g2int m width) (load_g2int m height)
                   (load_g2int m nbits) pngbuf of
              (Jump, m', t) \<Rightarrow> (Return (- 3), m', t0 @ t @ [Destroy_write_struct True])
            | (UB, m', t) \<Rightarrow> (Undefined, m', t0 @ t)
            | (Normal mem, m', t) \<Rightarrow>
                (Return (stream_len mem), m', t0 @ t @ [Destroy_write_struct True, Free])))"

subsection \<open>Reading a run\<close>

text \<open>The chunks passed to the write callback, in order.\<close>

fun writes :: "event list \<Rightarrow> byte list list" where
  "writes [] = []"
| "writes (Write d # t) = d # writes t"
| "writes (e # t) = writes t"

text \<open>The arguments of the calls to \<^verbatim>\<open>png_set_IHDR\<close> and to \<^verbatim>\<open>png_set_rows\<close>.\<close>

fun registered :: "event list \<Rightarrow> (int \<times> int \<times> int \<times> color_type) list" where
  "registered [] = []"
| "registered (Set_IHDR w h b c # t) = (w, h, b, c) # registered t"
| "registered (e # t) = registered t"

fun row_views :: "event list \<Rightarrow> addr list list" where
  "row_views [] = []"
| "row_views (Set_rows rs # t) = rs # row_views t"
| "row_views (e # t) = row_views t"

text \<open>
  Resources. \<^verbatim>\<open>png_destroy_write_struct(&png_ptr, &info_ptr)\<close> releases the info struct
  and the write struct in one call; with a null second argument, the write struct only.
  \<^verbatim>\<open>free\<close> of a null pointer does nothing.
\<close>

datatype resource = Write_struct | Info_struct | Row_pointers

fun acquires :: "event \<Rightarrow> resource list" where
  "acquires (Create_write_struct True) = [Write_struct]"
| "acquires (Create_info_struct True) = [Info_struct]"
| "acquires (Malloc True) = [Row_pointers]"
| "acquires e = []"

fun releases :: "event \<Rightarrow> resource list" where
  "releases (Destroy_write_struct True) = [Info_struct, Write_struct]"
| "releases (Destroy_write_struct False) = [Write_struct]"
| "releases Free = [Row_pointers]"
| "releases e = []"

text \<open>The resources held after a run, the latest acquired first.\<close>

definition held_step :: "resource list \<Rightarrow> event \<Rightarrow> resource list" where
  "held_step st e = acquires e @ filter (\<lambda>r. r \<notin> set (releases e)) st"

definition held :: "event list \<Rightarrow> resource list" where
  "held t = foldl held_step [] t"




subsection \<open>Concrete runs\<close>

text \<open>
  A memory with a 2 by 2 grey image (bytes 10, 20, 30, 40 from address 100) and the
  dimensions as \<^verbatim>\<open>g2int\<close> objects: width 2 at address 0, height 2 at 4, 8 bits at 8.
  The output buffer is at 200.
\<close>

definition store0 :: memory where
  "store0 = (\<lambda>a. if a = 0 then 2 else if a = 4 then 2 else if a = 8 then 8
                 else if a = 100 then 10 else if a = 101 then 20 else if a = 102 then 30
                 else if a = 103 then 40 else 0)"

text \<open>An engine that accepts everything and writes two chunks, and its variants.\<close>

definition two_chunks :: "memory \<Rightarrow> int \<times> int \<times> int \<times> color_type \<Rightarrow> addr list \<Rightarrow> byte list list \<times> bool" where
  "two_chunks m ihdr rows = ([[137, 80], [78]], True)"

definition then_fault :: "memory \<Rightarrow> int \<times> int \<times> int \<times> color_type \<Rightarrow> addr list \<Rightarrow> byte list list \<times> bool" where
  "then_fault m ihdr rows = ([[137, 80]], False)"

definition accept_all :: "int \<Rightarrow> int \<Rightarrow> int \<Rightarrow> color_type \<Rightarrow> bool" where
  "accept_all w h b c = True"

definition engine_ok :: extern where
  "engine_ok = \<lparr>create_write_struct_ok = True, create_info_struct_ok = True,
                 set_IHDR_ok = accept_all, malloc_ok = True, write_png = two_chunks\<rparr>"

definition engine_fault :: extern where
  "engine_fault = engine_ok\<lparr>write_png := then_fault\<rparr>"

definition engine_no_write_struct :: extern where
  "engine_no_write_struct = engine_ok\<lparr>create_write_struct_ok := False\<rparr>"

definition engine_no_info_struct :: extern where
  "engine_no_info_struct = engine_ok\<lparr>create_info_struct_ok := False\<rparr>"

text \<open>The same image declared with 24, 32 and 16 bits, and a sink at the output buffer.\<close>

definition store_rgb :: memory where
  "store_rgb = store0(8 := 24)"

definition store_rgba :: memory where
  "store_rgba = store0(8 := 32)"

definition store_deep :: memory where
  "store_deep = store0(8 := 16)"

definition sink0 :: png_stream where
  "sink0 = \<lparr>stream_ptr = 200, stream_len = 0\<rparr>"

text \<open>
  Engines that write much: one chunk of \<open>2 ^ 31\<close> bytes; one chunk of
  \<open>2 ^ 32 - 1\<close> bytes, the largest a \<^verbatim>\<open>png_uint_32\<close> length allows; a chunk of
  \<open>2 ^ 31\<close> bytes followed by one byte. A sink that has reached \<^verbatim>\<open>INT_MAX\<close>.
\<close>

definition half_chunk :: "memory \<Rightarrow> int \<times> int \<times> int \<times> color_type \<Rightarrow> addr list \<Rightarrow> byte list list \<times> bool" where
  "half_chunk m ihdr rows = ([replicate 2147483648 0], True)"

definition full_chunk :: "memory \<Rightarrow> int \<times> int \<times> int \<times> color_type \<Rightarrow> addr list \<Rightarrow> byte list list \<times> bool" where
  "full_chunk m ihdr rows = ([replicate 4294967295 0], True)"

definition half_then_one :: "memory \<Rightarrow> int \<times> int \<times> int \<times> color_type \<Rightarrow> addr list \<Rightarrow> byte list list \<times> bool" where
  "half_then_one m ihdr rows = ([replicate 2147483648 0, [137]], True)"

definition engine_half :: extern where
  "engine_half = engine_ok\<lparr>write_png := half_chunk\<rparr>"

definition engine_full :: extern where
  "engine_full = engine_ok\<lparr>write_png := full_chunk\<rparr>"

definition engine_half_then_one :: extern where
  "engine_half_then_one = engine_ok\<lparr>write_png := half_then_one\<rparr>"

definition sink_max :: png_stream where
  "sink_max = \<lparr>stream_ptr = 200, stream_len = 2147483647\<rparr>"

section \<open>Properties\<close>

subsection \<open>The conversion to int\<close>

lemma to_g2int_in_int: "in_int (to_g2int v)"
  by (simp add: to_g2int_def in_int_def INT_MIN_def INT_MAX_def)

lemma to_g2int_id: "in_int v \<Longrightarrow> to_g2int v = v"
  by (simp add: to_g2int_def in_int_def INT_MIN_def INT_MAX_def)

lemma to_g2int_add: "to_g2int (to_g2int a + b) = to_g2int (a + b)"
proof -
  define c where "c = (a + 2147483648) mod 4294967296"
  have "to_g2int a + b + 2147483648 = c + b"
    by (simp add: to_g2int_def c_def)
  then have "(to_g2int a + b + 2147483648) mod 4294967296 = (c + b) mod 4294967296"
    by (rule arg_cong)
  also have "\<dots> = (a + 2147483648 + b) mod 4294967296"
    unfolding c_def by (rule mod_add_left_eq)
  also have "a + 2147483648 + b = a + b + 2147483648"
    by simp
  finally show ?thesis
    unfolding to_g2int_def [of "to_g2int a + b"] to_g2int_def [of "a + b"] by simp
qed

subsection \<open>The sink\<close>

lemma sum_lengths_nonneg: "0 \<le> (\<Sum>d\<leftarrow>cs. int (length d))"
  by (induction cs) auto

lemma user_write_data_eq:
  "user_write_data (m, s) d =
     (memcpy m (stream_ptr s + stream_len s) d,
      s\<lparr>stream_len := to_g2int (stream_len s + int (length d))\<rparr>)"
  by (simp add: user_write_data_def)

lemma memcpy_inside:
  "dst \<le> a \<Longrightarrow> a < dst + int (length src) \<Longrightarrow> memcpy m dst src a = src ! nat (a - dst)"
  by (simp add: memcpy_def)

lemma memcpy_outside:
  "a < dst \<or> dst + int (length src) \<le> a \<Longrightarrow> memcpy m dst src a = m a"
  by (auto simp: memcpy_def)

lemma write_chunks_append:
  "write_chunks ms (cs @ ds) = write_chunks (write_chunks ms cs) ds"
  by (induction cs arbitrary: ms) auto

lemma write_chunks_ptr:
  "write_chunks (m, s) cs = (m', s') \<Longrightarrow> stream_ptr s' = stream_ptr s"
  by (induction cs arbitrary: m s) (auto simp: user_write_data_eq)

lemma write_chunks_len:
  "write_chunks (m, s) cs = (m', s') \<Longrightarrow> in_int (stream_len s) \<Longrightarrow>
     stream_len s' = to_g2int (stream_len s + (\<Sum>d\<leftarrow>cs. int (length d)))"
proof (induction cs arbitrary: m s)
  case Nil
  then show ?case by (simp add: to_g2int_id)
next
  case (Cons d cs)
  let ?s1 = "s\<lparr>stream_len := to_g2int (stream_len s + int (length d))\<rparr>"
  from Cons.prems(1)
  have "write_chunks (memcpy m (stream_ptr s + stream_len s) d, ?s1) cs = (m', s')"
    by (simp add: user_write_data_eq)
  from Cons.IH [OF this] have "stream_len s' =
      to_g2int (to_g2int (stream_len s + int (length d)) + (\<Sum>d\<leftarrow>cs. int (length d)))"
    by (simp add: to_g2int_in_int)
  then show ?case by (simp add: to_g2int_add add.assoc)
qed

lemma write_chunks_len_exact:
  assumes "write_chunks (m, s) cs = (m', s')" and "in_int (stream_len s)"
    and "stream_len s + (\<Sum>d\<leftarrow>cs. int (length d)) \<le> INT_MAX"
  shows "stream_len s' = stream_len s + (\<Sum>d\<leftarrow>cs. int (length d))"
proof -
  from assms(2,3) sum_lengths_nonneg [of cs]
  have "in_int (stream_len s + (\<Sum>d\<leftarrow>cs. int (length d)))"
    by (simp add: in_int_def)
  with write_chunks_len [OF assms(1,2)] show ?thesis
    by (simp add: to_g2int_id)
qed

lemma write_chunks_frame:
  "write_chunks (m, s) cs = (m', s') \<Longrightarrow> in_int (stream_len s) \<Longrightarrow>
     stream_len s + (\<Sum>d\<leftarrow>cs. int (length d)) \<le> INT_MAX \<Longrightarrow>
     a < stream_ptr s + stream_len s \<or>
       stream_ptr s + stream_len s + (\<Sum>d\<leftarrow>cs. int (length d)) \<le> a \<Longrightarrow>
     m' a = m a"
proof (induction cs arbitrary: m s)
  case Nil
  then show ?case by simp
next
  case (Cons d cs)
  let ?m1 = "memcpy m (stream_ptr s + stream_len s) d"
  let ?s1 = "s\<lparr>stream_len := to_g2int (stream_len s + int (length d))\<rparr>"
  from Cons.prems(1) have w: "write_chunks (?m1, ?s1) cs = (m', s')"
    by (simp add: user_write_data_eq)
  from Cons.prems(2,3) sum_lengths_nonneg [of cs]
  have "in_int (stream_len s + int (length d))"
    by (simp add: in_int_def)
  then have l: "stream_len ?s1 = stream_len s + int (length d)"
    by (simp add: to_g2int_id)
  have i: "in_int (stream_len ?s1)"
    by (simp add: to_g2int_in_int)
  from Cons.prems(3) l
  have b: "stream_len ?s1 + (\<Sum>d\<leftarrow>cs. int (length d)) \<le> INT_MAX"
    by simp
  from Cons.prems(4) l
  have "a < stream_ptr ?s1 + stream_len ?s1 \<or>
      stream_ptr ?s1 + stream_len ?s1 + (\<Sum>d\<leftarrow>cs. int (length d)) \<le> a"
    by auto
  from Cons.IH [OF w i b this] have "m' a = ?m1 a" .
  also from Cons.prems(4) sum_lengths_nonneg [of cs] have "?m1 a = m a"
    by (intro memcpy_outside) auto
  finally show ?case .
qed

lemma fill_rows_eq:
  "fill_rows data width height bytes j rows = Some rs \<Longrightarrow>
     rs = rows @ map (\<lambda>i. data + i * width * bytes) [j..height - 1]"
proof (induction data width height bytes j rows rule: fill_rows.induct)
  case (1 data width height bytes j rows)
  show ?case
  proof (cases "j < height")
    case True
    with "1.prems" obtain off where o: "row_offset j width bytes = Some off"
      and r: "fill_rows data width height bytes (j + 1) (rows @ [data + off]) = Some rs"
      by (subst (asm) fill_rows.simps) (auto split: option.splits)
    from o have off: "off = j * width * bytes"
      by (auto simp: row_offset_def split: if_splits)
    from "1.IH" [OF True o r] off True show ?thesis
      by (simp add: upto_rec1 [of j "height - 1"])
  next
    case False
    with "1.prems" show ?thesis
      by (subst (asm) fill_rows.simps) simp
  qed
qed

lemma writes_append: "writes (s @ t) = writes s @ writes t"
  by (induction s rule: writes.induct) auto

lemma writes_map_Write: "writes (map Write cs) = cs"
  by (induction cs) auto

lemma registered_append: "registered (s @ t) = registered s @ registered t"
  by (induction s rule: registered.induct) auto

lemma registered_map_Write: "registered (map Write cs) = []"
  by (induction cs) auto

lemma row_views_append: "row_views (s @ t) = row_views s @ row_views t"
  by (induction s rule: row_views.induct) auto

lemma row_views_map_Write: "row_views (map Write cs) = []"
  by (induction cs) auto

lemma load_g2int_cong:
  "(\<And>a. p \<le> a \<and> a < p + 4 \<Longrightarrow> m' a = m a) \<Longrightarrow> load_g2int m' p = load_g2int m p"
  by (simp add: load_g2int_def)

subsection \<open>The paths through enc\_png\<close>

lemma encode_cases:
  fixes x m data width height nbits pngbuf
  defines "W \<equiv> png_uint_32 width" and "H \<equiv> png_uint_32 height"
    and "B \<equiv> fst (bit_depth_color_type nbits)" and "C \<equiv> snd (bit_depth_color_type nbits)"
    and "sink \<equiv> \<lparr>stream_ptr = pngbuf, stream_len = 0\<rparr>"
  defines "t2 \<equiv> [Set_write_fn, Set_IHDR W H B C, Malloc (malloc_ok x)]"
  obtains
    (rejected) "encode x m data width height nbits pngbuf =
        (Jump, m, [Set_write_fn, Set_IHDR W H B C, Longjmp])"
  | (undefined_rows) "encode x m data width height nbits pngbuf = (UB, m, t2)"
  | (returned) rows chunks m' mem where
      "fill_rows data width height (nbits sdiv 8) 0 [] = Some rows"
      "write_chunks (m, sink) chunks = (m', mem)"
      "encode x m data width height nbits pngbuf =
         (Normal mem, m', t2 @ [Set_rows rows, Write_png] @ map Write chunks)"
  | (faulted) rows chunks m' mem where
      "fill_rows data width height (nbits sdiv 8) 0 [] = Some rows"
      "write_chunks (m, sink) chunks = (m', mem)"
      "encode x m data width height nbits pngbuf =
         (Jump, m', t2 @ [Set_rows rows, Write_png] @ map Write chunks @ [Longjmp])"
proof (cases "set_IHDR_ok x W H B C")
  case False
  then have "encode x m data width height nbits pngbuf =
      (Jump, m, [Set_write_fn, Set_IHDR W H B C, Longjmp])"
    by (simp add: encode_def case_prod_beta Let_def W_def H_def B_def C_def)
  then show thesis by (rule rejected)
next
  case accepted: True
  show thesis
  proof (cases "\<not> malloc_ok x \<and> 0 < height")
    case True
    with accepted have "encode x m data width height nbits pngbuf = (UB, m, t2)"
      by (simp add: encode_def case_prod_beta Let_def W_def H_def B_def C_def t2_def)
    then show thesis by (rule undefined_rows)
  next
    case stored: False
    show thesis
    proof (cases "fill_rows data width height (nbits sdiv 8) 0 []")
      case None
      with accepted stored have "encode x m data width height nbits pngbuf = (UB, m, t2)"
        by (simp add: encode_def case_prod_beta Let_def W_def H_def B_def C_def t2_def)
      then show thesis by (rule undefined_rows)
    next
      case (Some rows)
      obtain chunks returns where wp: "write_png x m (W, H, B, C) rows = (chunks, returns)"
        by fastforce
      obtain m' mem where written: "write_chunks (m, sink) chunks = (m', mem)"
        by fastforce
      show thesis
      proof (cases returns)
        case True
        with accepted stored Some wp written
        have "encode x m data width height nbits pngbuf =
                (Normal mem, m', t2 @ [Set_rows rows, Write_png] @ map Write chunks)"
          by (simp add: encode_def case_prod_beta Let_def W_def H_def B_def C_def t2_def sink_def)
        with Some written show thesis by (rule returned)
      next
        case False
        with accepted stored Some wp written
        have "encode x m data width height nbits pngbuf =
                (Jump, m', t2 @ [Set_rows rows, Write_png] @ map Write chunks @ [Longjmp])"
          by (simp add: encode_def case_prod_beta Let_def W_def H_def B_def C_def t2_def sink_def)
        with Some written show thesis by (rule faulted)
      qed
    qed
  qed
qed

lemma enc_png_cases:
  fixes x m data width height nbits pngbuf
  defines "W \<equiv> png_uint_32 (load_g2int m width)" and "H \<equiv> png_uint_32 (load_g2int m height)"
    and "B \<equiv> fst (bit_depth_color_type (load_g2int m nbits))"
    and "C \<equiv> snd (bit_depth_color_type (load_g2int m nbits))"
    and "sink \<equiv> \<lparr>stream_ptr = pngbuf, stream_len = 0\<rparr>"
  defines "t2 \<equiv> [Create_write_struct True, Create_info_struct True,
                  Set_write_fn, Set_IHDR W H B C, Malloc (malloc_ok x)]"
  obtains
    (no_write_struct) "\<not> create_write_struct_ok x"
      "enc_png x m data width height nbits pngbuf = (Return (- 1), m, [Create_write_struct False])"
  | (no_info_struct) "create_write_struct_ok x" "\<not> create_info_struct_ok x"
      "enc_png x m data width height nbits pngbuf =
         (Return (- 2), m,
          [Create_write_struct True, Create_info_struct False, Destroy_write_struct False])"
  | (rejected) "create_write_struct_ok x" "create_info_struct_ok x"
      "enc_png x m data width height nbits pngbuf =
         (Return (- 3), m,
          [Create_write_struct True, Create_info_struct True, Set_write_fn, Set_IHDR W H B C,
           Longjmp, Destroy_write_struct True])"
  | (undefined_rows) "create_write_struct_ok x" "create_info_struct_ok x"
      "enc_png x m data width height nbits pngbuf = (Undefined, m, t2)"
  | (returned) rows chunks m' mem where "create_write_struct_ok x" "create_info_struct_ok x"
      "fill_rows data (load_g2int m width) (load_g2int m height) (load_g2int m nbits sdiv 8) 0 [] =
         Some rows"
      "write_chunks (m, sink) chunks = (m', mem)"
      "enc_png x m data width height nbits pngbuf =
         (Return (stream_len mem), m',
          t2 @ [Set_rows rows, Write_png] @ map Write chunks @ [Destroy_write_struct True, Free])"
  | (faulted) rows chunks m' mem where "create_write_struct_ok x" "create_info_struct_ok x"
      "fill_rows data (load_g2int m width) (load_g2int m height) (load_g2int m nbits sdiv 8) 0 [] =
         Some rows"
      "write_chunks (m, sink) chunks = (m', mem)"
      "enc_png x m data width height nbits pngbuf =
         (Return (- 3), m',
          t2 @ [Set_rows rows, Write_png] @ map Write chunks @ [Longjmp, Destroy_write_struct True])"
proof (cases "create_write_struct_ok x")
  case False
  then show thesis by (intro no_write_struct) (simp_all add: enc_png_def)
next
  case ws: True
  show thesis
  proof (cases "create_info_struct_ok x")
    case False
    with ws show thesis by (intro no_info_struct) (simp_all add: enc_png_def)
  next
    case info: True
    show thesis
    proof (cases rule: encode_cases [where x = x and m = m and data = data
          and width = "load_g2int m width" and height = "load_g2int m height"
          and nbits = "load_g2int m nbits" and pngbuf = pngbuf])
      case rejected
      with ws info show thesis
        by (intro that(3)) (simp_all add: enc_png_def W_def H_def B_def C_def)
    next
      case undefined_rows
      with ws info show thesis
        by (intro that(4)) (simp_all add: enc_png_def W_def H_def B_def C_def t2_def)
    next
      case (returned rows chunks m' mem)
      with ws info show thesis
        by (intro that(5) [of rows chunks m' mem])
          (simp_all add: enc_png_def W_def H_def B_def C_def t2_def sink_def)
    next
      case (faulted rows chunks m' mem)
      with ws info show thesis
        by (intro that(6) [of rows chunks m' mem])
          (simp_all add: enc_png_def W_def H_def B_def C_def t2_def sink_def)
    qed
  qed
qed

lemma held_snoc: "held (t @ [e]) = held_step (held t) e"
  by (simp add: held_def)

lemma foldl_held_Write: "foldl held_step st (map Write cs) = st"
  by (induction cs) (auto simp: held_step_def)




subsection \<open>The concrete runs\<close>

lemma load_store0:
  "load_g2int store0 0 = 2" "load_g2int store0 4 = 2" "load_g2int store0 8 = 8"
  by (simp_all add: load_g2int_def store0_def to_g2int_def)

lemma load_store_rgb:
  "load_g2int store_rgb 0 = 2" "load_g2int store_rgb 4 = 2" "load_g2int store_rgb 8 = 24"
  by (simp_all add: load_g2int_def store_rgb_def store0_def to_g2int_def)

lemma load_store_rgba:
  "load_g2int store_rgba 0 = 2" "load_g2int store_rgba 4 = 2" "load_g2int store_rgba 8 = 32"
  by (simp_all add: load_g2int_def store_rgba_def store0_def to_g2int_def)

lemma load_store_deep:
  "load_g2int store_deep 0 = 2" "load_g2int store_deep 4 = 2" "load_g2int store_deep 8 = 16"
  by (simp_all add: load_g2int_def store_deep_def store0_def to_g2int_def)

lemmas run_defs = enc_png_def encode_def engine_ok_def two_chunks_def
  accept_all_def bit_depth_color_type_def png_uint_32_def fill_rows.simps row_offset_def
  in_int_def INT_MAX_def INT_MIN_def user_write_data_def to_g2int_def

lemma run_ok:
  "enc_png engine_ok store0 100 0 4 8 200 =
     (Return 3, memcpy (memcpy store0 200 [137, 80]) 202 [78],
      [Create_write_struct True, Create_info_struct True, Set_write_fn,
       Set_IHDR 2 2 8 PNG_COLOR_TYPE_GRAY, Malloc True, Set_rows [100, 102], Write_png,
       Write [137, 80], Write [78], Destroy_write_struct True, Free])"
  by (simp add: run_defs load_store0)

lemma run_fault:
  "enc_png engine_fault store0 100 0 4 8 200 =
     (Return (- 3), memcpy store0 200 [137, 80],
      [Create_write_struct True, Create_info_struct True, Set_write_fn,
       Set_IHDR 2 2 8 PNG_COLOR_TYPE_GRAY, Malloc True, Set_rows [100, 102], Write_png,
       Write [137, 80], Longjmp, Destroy_write_struct True])"
  by (simp add: run_defs load_store0 engine_fault_def then_fault_def)

lemma run_no_write_struct:
  "enc_png engine_no_write_struct store0 100 0 4 8 200 =
     (Return (- 1), store0, [Create_write_struct False])"
  by (simp add: run_defs engine_no_write_struct_def)

lemma run_no_info_struct:
  "enc_png engine_no_info_struct store0 100 0 4 8 200 =
     (Return (- 2), store0,
      [Create_write_struct True, Create_info_struct False, Destroy_write_struct False])"
  by (simp add: run_defs engine_no_info_struct_def)

lemma run_rgb:
  "enc_png engine_ok store_rgb 100 0 4 8 200 =
     (Return 3, memcpy (memcpy store_rgb 200 [137, 80]) 202 [78],
      [Create_write_struct True, Create_info_struct True, Set_write_fn,
       Set_IHDR 2 2 8 PNG_COLOR_TYPE_RGB, Malloc True, Set_rows [100, 106], Write_png,
       Write [137, 80], Write [78], Destroy_write_struct True, Free])"
  by (simp add: run_defs load_store_rgb)

lemma run_rgba:
  "enc_png engine_ok store_rgba 100 0 4 8 200 =
     (Return 3, memcpy (memcpy store_rgba 200 [137, 80]) 202 [78],
      [Create_write_struct True, Create_info_struct True, Set_write_fn,
       Set_IHDR 2 2 8 PNG_COLOR_TYPE_RGB_ALPHA, Malloc True, Set_rows [100, 108], Write_png,
       Write [137, 80], Write [78], Destroy_write_struct True, Free])"
  by (simp add: run_defs load_store_rgba)

lemma run_deep:
  "enc_png engine_ok store_deep 100 0 4 8 200 =
     (Return 3, memcpy (memcpy store_deep 200 [137, 80]) 202 [78],
      [Create_write_struct True, Create_info_struct True, Set_write_fn,
       Set_IHDR 2 2 16 PNG_COLOR_TYPE_GRAY, Malloc True, Set_rows [100, 104], Write_png,
       Write [137, 80], Write [78], Destroy_write_struct True, Free])"
  by (simp add: run_defs load_store_deep)

lemma run_half:
  "enc_png engine_half store0 100 0 4 8 200 =
     (Return (- 2147483648), memcpy store0 200 (replicate 2147483648 0),
      [Create_write_struct True, Create_info_struct True, Set_write_fn,
       Set_IHDR 2 2 8 PNG_COLOR_TYPE_GRAY, Malloc True, Set_rows [100, 102], Write_png,
       Write (replicate 2147483648 0), Destroy_write_struct True, Free])"
  by (simp add: run_defs load_store0 engine_half_def half_chunk_def)

lemma run_full:
  "enc_png engine_full store0 100 0 4 8 200 =
     (Return (- 1), memcpy store0 200 (replicate 4294967295 0),
      [Create_write_struct True, Create_info_struct True, Set_write_fn,
       Set_IHDR 2 2 8 PNG_COLOR_TYPE_GRAY, Malloc True, Set_rows [100, 102], Write_png,
       Write (replicate 4294967295 0), Destroy_write_struct True, Free])"
  by (simp add: run_defs load_store0 engine_full_def full_chunk_def)

lemma run_half_then_one:
  "enc_png engine_half_then_one store0 100 0 4 8 2147483748 =
     (Return (- 2147483647),
      memcpy (memcpy store0 2147483748 (replicate 2147483648 0)) 100 [137],
      [Create_write_struct True, Create_info_struct True, Set_write_fn,
       Set_IHDR 2 2 8 PNG_COLOR_TYPE_GRAY, Malloc True, Set_rows [100, 102], Write_png,
       Write (replicate 2147483648 0), Write [137], Destroy_write_struct True, Free])"
  by (simp add: run_defs load_store0 engine_half_then_one_def half_then_one_def)

lemma write_one:
  "user_write_data (store0, sink0) [137, 80] =
     (memcpy store0 200 [137, 80], \<lparr>stream_ptr = 200, stream_len = 2\<rparr>)"
  by (simp add: user_write_data_def sink0_def to_g2int_def)

lemma write_two:
  "write_chunks (store0, sink0) ([[137, 80]] @ [[78]]) =
     (memcpy (memcpy store0 200 [137, 80]) 202 [78], \<lparr>stream_ptr = 200, stream_len = 3\<rparr>)"
  by (simp add: user_write_data_def sink0_def to_g2int_def)

lemma write_first:
  "write_chunks (store0, sink0) [[137, 80]] =
     (memcpy store0 200 [137, 80], \<lparr>stream_ptr = 200, stream_len = 2\<rparr>)"
  by (simp add: user_write_data_def sink0_def to_g2int_def)

text \<open>
  The engine structs are released on the path taken after a fault inside
  \<^verbatim>\<open>png_write_png\<close>, the row-pointer array is not: the block under \<^verbatim>\<open>setjmp\<close>
  (lines 103 to 107) has no \<^verbatim>\<open>free(row_pointers)\<close>, the block at lines 144 to 146 has.
\<close>

lemma enc_png_fault_keeps_row_pointers:
  "held (snd (snd (enc_png engine_fault store0 100 0 4 8 200))) = [Row_pointers]"
  by (simp add: run_fault held_def held_step_def)

text \<open>The same on every run in which the engine jumps after a successful \<^verbatim>\<open>malloc\<close>.\<close>

lemma enc_png_fault_after_malloc:
  assumes "enc_png x m data width height nbits pngbuf = (out, m', t)"
    and "Longjmp \<in> set t" and "Malloc True \<in> set t"
  shows "held t = [Row_pointers]"
  using assms
proof (cases rule: enc_png_cases [where x = x and m = m and data = data and width = width
      and height = height and nbits = nbits and pngbuf = pngbuf])
  case (faulted rows chunks m'' mem)
  with assms have t: "t = [Create_write_struct True, Create_info_struct True, Set_write_fn,
      Set_IHDR (png_uint_32 (load_g2int m width)) (png_uint_32 (load_g2int m height))
        (fst (bit_depth_color_type (load_g2int m nbits)))
        (snd (bit_depth_color_type (load_g2int m nbits))),
      Malloc (malloc_ok x), Set_rows rows, Write_png] @ map Write chunks @
      [Longjmp, Destroy_write_struct True]"
    by simp
  from assms(3) have "malloc_ok x"
    unfolding t by auto
  then show ?thesis
    unfolding t held_def by (simp add: foldl_held_Write held_step_def)
qed auto

section \<open>The claims\<close>

text \<open>
  Claim C1, as stated: for every call to \<^verbatim>\<open>enc_png\<close> that completes without an
  error, the integer returned equals the sum of the lengths of all chunks passed to
  the write callback during the call. The sink's length is a \<^verbatim>\<open>g2int\<close>: when the
  engine writes \<open>2 ^ 31\<close> bytes, both structs are allocated and nothing faults, yet
  the call returns \<open>- 2 ^ 31\<close>.
\<close>

theorem enc_png_length_wraps_counterexample:
  "create_write_struct_ok engine_half \<and> create_info_struct_ok engine_half \<and>
   Longjmp \<notin> set (snd (snd (enc_png engine_half store0 100 0 4 8 200))) \<and>
   fst (enc_png engine_half store0 100 0 4 8 200) = Return (- 2147483648) \<and>
   (\<Sum>d\<leftarrow>writes (snd (snd (enc_png engine_half store0 100 0 4 8 200))). int (length d)) =
     2147483648"
proof -
  have ok: "create_write_struct_ok engine_half" "create_info_struct_ok engine_half"
    by (simp_all add: engine_half_def engine_ok_def)
  have run: "Longjmp \<notin> set (snd (snd (enc_png engine_half store0 100 0 4 8 200)))"
    "fst (enc_png engine_half store0 100 0 4 8 200) = Return (- 2147483648)"
    "(\<Sum>d\<leftarrow>writes (snd (snd (enc_png engine_half store0 100 0 4 8 200))). int (length d)) =
       2147483648"
    by (simp_all add: run_half)
  from ok run show ?thesis by blast
qed

text \<open>
  Claim C1, amended: for every call to \<^verbatim>\<open>enc_png\<close> that completes without an error
  (both structs allocated, no fault in the engine), the integer returned is the sink's
  accumulated length: the sum of the lengths of all chunks passed to the write callback
  during the call, starting from 0, reduced modulo \<open>2 ^ 32\<close> into the range of
  \<^verbatim>\<open>int\<close>; it equals the sum whenever the sum is at most \<^verbatim>\<open>INT_MAX\<close>.
\<close>

theorem enc_png_returns_length_written:
  assumes "enc_png x m data width height nbits pngbuf = (Return r, m', t)"
    and "create_write_struct_ok x" and "create_info_struct_ok x" and "Longjmp \<notin> set t"
  shows "r = to_g2int (\<Sum>d\<leftarrow>writes t. int (length d)) \<and>
         ((\<Sum>d\<leftarrow>writes t. int (length d)) \<le> INT_MAX \<longrightarrow>
            r = (\<Sum>d\<leftarrow>writes t. int (length d)))"
  using assms
proof (cases rule: enc_png_cases [where x = x and m = m and data = data and width = width
      and height = height and nbits = nbits and pngbuf = pngbuf])
  case (returned rows chunks m'' mem)
  have z: "in_int (stream_len \<lparr>stream_ptr = pngbuf, stream_len = 0\<rparr>)"
    by (simp add: in_int_def INT_MIN_def INT_MAX_def)
  from write_chunks_len [OF returned(4) z]
  have 1: "stream_len mem = to_g2int (\<Sum>d\<leftarrow>chunks. int (length d))"
    by simp
  have 2: "stream_len mem = (\<Sum>d\<leftarrow>chunks. int (length d))"
    if "(\<Sum>d\<leftarrow>chunks. int (length d)) \<le> INT_MAX"
    using write_chunks_len_exact [OF returned(4) z] that by simp
  from returned(5) assms(1) 1 2 show ?thesis
    by (auto simp: writes_append writes_map_Write)
qed auto

theorem enc_png_returns_length_written_witness:
  "create_write_struct_ok engine_ok \<and> create_info_struct_ok engine_ok \<and>
   Longjmp \<notin> set (snd (snd (enc_png engine_ok store0 100 0 4 8 200))) \<and>
   fst (enc_png engine_ok store0 100 0 4 8 200) = Return 3 \<and>
   (\<Sum>d\<leftarrow>writes (snd (snd (enc_png engine_ok store0 100 0 4 8 200))). int (length d)) \<le> INT_MAX \<and>
   (3::int) = (\<Sum>d\<leftarrow>writes (snd (snd (enc_png engine_ok store0 100 0 4 8 200))). int (length d))"
proof -
  have ok: "create_write_struct_ok engine_ok" "create_info_struct_ok engine_ok"
    by (simp_all add: engine_ok_def)
  have j: "Longjmp \<notin> set
      [Create_write_struct True, Create_info_struct True, Set_write_fn,
       Set_IHDR 2 2 8 PNG_COLOR_TYPE_GRAY, Malloc True, Set_rows [100, 102], Write_png,
       Write [137, 80], Write [78], Destroy_write_struct True, Free]"
    by simp
  have b: "(\<Sum>d\<leftarrow>writes (snd (snd (enc_png engine_ok store0 100 0 4 8 200))). int (length d))
      \<le> INT_MAX"
    by (simp add: run_ok INT_MAX_def)
  have t: "snd (snd (enc_png engine_ok store0 100 0 4 8 200)) =
      [Create_write_struct True, Create_info_struct True, Set_write_fn,
       Set_IHDR 2 2 8 PNG_COLOR_TYPE_GRAY, Malloc True, Set_rows [100, 102], Write_png,
       Write [137, 80], Write [78], Destroy_write_struct True, Free]"
    and r: "fst (enc_png engine_ok store0 100 0 4 8 200) = Return 3"
    by (simp_all add: run_ok)
  from enc_png_returns_length_written [OF run_ok ok j] b [unfolded t]
  have e: "(3::int) =
      (\<Sum>d\<leftarrow>writes [Create_write_struct True, Create_info_struct True, Set_write_fn,
       Set_IHDR 2 2 8 PNG_COLOR_TYPE_GRAY, Malloc True, Set_rows [100, 102], Write_png,
       Write [137, 80], Write [78], Destroy_write_struct True, Free]. int (length d))"
    by blast
  from ok j b r e show ?thesis unfolding t by blast
qed

text \<open>
  Claim C2. For every call to \<^verbatim>\<open>enc_png\<close>, the bit depth and colour type registered
  with the engine follow from the input bit depth: 8 gives (8, grey), 24 gives
  (8, RGB), 32 gives (8, RGB with alpha). The registration is the one call to
  \<^verbatim>\<open>png_set_IHDR\<close>, made once both engine structs exist.
\<close>

theorem enc_png_registers_depth_and_color:
  assumes "enc_png x m data width height nbits pngbuf = (out, m', t)"
    and "create_write_struct_ok x" and "create_info_struct_ok x"
  shows "(load_g2int m nbits = 8 \<longrightarrow>
            registered t = [(png_uint_32 (load_g2int m width), png_uint_32 (load_g2int m height),
                             8, PNG_COLOR_TYPE_GRAY)]) \<and>
         (load_g2int m nbits = 24 \<longrightarrow>
            registered t = [(png_uint_32 (load_g2int m width), png_uint_32 (load_g2int m height),
                             8, PNG_COLOR_TYPE_RGB)]) \<and>
         (load_g2int m nbits = 32 \<longrightarrow>
            registered t = [(png_uint_32 (load_g2int m width), png_uint_32 (load_g2int m height),
                             8, PNG_COLOR_TYPE_RGB_ALPHA)])"
  using assms
  by (cases rule: enc_png_cases [where x = x and m = m and data = data and width = width
      and height = height and nbits = nbits and pngbuf = pngbuf])
    (auto simp: registered_append registered_map_Write bit_depth_color_type_def)

theorem enc_png_registers_depth_and_color_witness:
  "create_write_struct_ok engine_ok \<and> create_info_struct_ok engine_ok \<and>
   load_g2int store0 8 = 8 \<and> load_g2int store_rgb 8 = 24 \<and> load_g2int store_rgba 8 = 32 \<and>
   registered (snd (snd (enc_png engine_ok store0 100 0 4 8 200))) = [(2, 2, 8, PNG_COLOR_TYPE_GRAY)] \<and>
   registered (snd (snd (enc_png engine_ok store_rgb 100 0 4 8 200))) = [(2, 2, 8, PNG_COLOR_TYPE_RGB)] \<and>
   registered (snd (snd (enc_png engine_ok store_rgba 100 0 4 8 200))) =
     [(2, 2, 8, PNG_COLOR_TYPE_RGB_ALPHA)]"
proof -
  have ok: "create_write_struct_ok engine_ok" "create_info_struct_ok engine_ok"
    by (simp_all add: engine_ok_def)
  note n = load_store0(3) load_store_rgb(3) load_store_rgba(3)
  from enc_png_registers_depth_and_color [OF run_ok ok] n(1)
  have 1: "registered (snd (snd (enc_png engine_ok store0 100 0 4 8 200))) =
             [(2, 2, 8, PNG_COLOR_TYPE_GRAY)]"
    by (simp add: run_ok)
  from enc_png_registers_depth_and_color [OF run_rgb ok] n(2)
  have 2: "registered (snd (snd (enc_png engine_ok store_rgb 100 0 4 8 200))) =
             [(2, 2, 8, PNG_COLOR_TYPE_RGB)]"
    by (simp add: run_rgb)
  from enc_png_registers_depth_and_color [OF run_rgba ok] n(3)
  have 3: "registered (snd (snd (enc_png engine_ok store_rgba 100 0 4 8 200))) =
             [(2, 2, 8, PNG_COLOR_TYPE_RGB_ALPHA)]"
    by (simp add: run_rgba)
  from ok n 1 2 3 show ?thesis by blast
qed

text \<open>
  Claim C3, as stated: every invocation of the write callback advances the length by
  exactly the chunk's length, and across any sequence of write calls the length never
  decreases. A sink that has reached \<^verbatim>\<open>INT_MAX\<close> and receives one more byte ends at
  \<^verbatim>\<open>INT_MIN\<close>: the length has not advanced by 1, it has decreased.
\<close>

theorem user_write_data_wraps_counterexample:
  "stream_len (snd (user_write_data (store0, sink_max) [0])) = - 2147483648 \<and>
   stream_len (snd (user_write_data (store0, sink_max) [0])) \<noteq>
     stream_len sink_max + int (length [0 :: byte]) \<and>
   stream_len (snd (user_write_data (store0, sink_max) [0])) < stream_len sink_max"
  by (simp add: user_write_data_def sink_max_def to_g2int_def)

text \<open>
  Claim C3, amended: every invocation of the write callback copies its chunk into
  memory starting exactly at \<^verbatim>\<open>stream_ptr + stream_len\<close>, changes no other byte, and
  sets the length to the old length plus the chunk's length reduced modulo \<open>2 ^ 32\<close>
  into the range of \<^verbatim>\<open>int\<close>, which is an advance by exactly the chunk's length
  whenever that sum fits (first conjunct). Across any sequence of write calls that
  starts from a length in range and whose total keeps the length at most \<^verbatim>\<open>INT_MAX\<close>,
  the length never decreases and the bytes written by earlier calls are never
  overwritten (second conjunct: after any first part \<open>cs\<close> of the sequence the length
  has advanced by the bytes of \<open>cs\<close> and lies between the initial and the final one,
  and the rest of the sequence leaves every address below the position then reached
  as it was).
\<close>

theorem user_write_data_appends:
  "(user_write_data (m, s) d = (m1, s1) \<longrightarrow>
      stream_ptr s1 = stream_ptr s \<and>
      stream_len s1 = to_g2int (stream_len s + int (length d)) \<and>
      (\<forall>i<length d. m1 (stream_ptr s + stream_len s + int i) = d ! i) \<and>
      (\<forall>a. a < stream_ptr s + stream_len s \<or>
            stream_ptr s + stream_len s + int (length d) \<le> a \<longrightarrow> m1 a = m a) \<and>
      (in_int (stream_len s + int (length d)) \<longrightarrow>
         stream_len s1 = stream_len s + int (length d))) \<and>
   (write_chunks (m, s) (cs @ ds) = (m3, s3) \<and> write_chunks (m, s) cs = (m2, s2) \<and>
    in_int (stream_len s) \<and>
    stream_len s + (\<Sum>d\<leftarrow>cs @ ds. int (length d)) \<le> INT_MAX \<longrightarrow>
      stream_len s2 = stream_len s + (\<Sum>d\<leftarrow>cs. int (length d)) \<and>
      stream_len s \<le> stream_len s2 \<and> stream_len s2 \<le> stream_len s3 \<and>
      (\<forall>a. a < stream_ptr s + stream_len s2 \<longrightarrow> m3 a = m2 a))"
proof (intro conjI impI)
  assume w: "user_write_data (m, s) d = (m1, s1)"
  then have m1: "m1 = memcpy m (stream_ptr s + stream_len s) d"
    and s1: "s1 = s\<lparr>stream_len := to_g2int (stream_len s + int (length d))\<rparr>"
    by (simp_all add: user_write_data_eq)
  from s1 show "stream_ptr s1 = stream_ptr s" by simp
  from s1 show "stream_len s1 = to_g2int (stream_len s + int (length d))" by simp
  show "\<forall>i<length d. m1 (stream_ptr s + stream_len s + int i) = d ! i"
    unfolding m1 by (simp add: memcpy_inside)
  show "\<forall>a. a < stream_ptr s + stream_len s \<or>
            stream_ptr s + stream_len s + int (length d) \<le> a \<longrightarrow> m1 a = m a"
    unfolding m1 by (simp add: memcpy_outside)
  assume "in_int (stream_len s + int (length d))"
  with s1 show "stream_len s1 = stream_len s + int (length d)"
    by (simp add: to_g2int_id)
next
  assume a: "write_chunks (m, s) (cs @ ds) = (m3, s3) \<and> write_chunks (m, s) cs = (m2, s2) \<and>
    in_int (stream_len s) \<and>
    stream_len s + (\<Sum>d\<leftarrow>cs @ ds. int (length d)) \<le> INT_MAX"
  then have 1: "write_chunks (m, s) cs = (m2, s2)" and i: "in_int (stream_len s)"
    and b: "stream_len s + (\<Sum>d\<leftarrow>cs. int (length d)) + (\<Sum>d\<leftarrow>ds. int (length d)) \<le> INT_MAX"
    by simp_all
  from a have "write_chunks (m, s) (cs @ ds) = (m3, s3)"
    by blast
  then have 2: "write_chunks (m2, s2) ds = (m3, s3)"
    unfolding write_chunks_append 1 .
  from b sum_lengths_nonneg [of ds]
  have b1: "stream_len s + (\<Sum>d\<leftarrow>cs. int (length d)) \<le> INT_MAX"
    by simp
  from write_chunks_len_exact [OF 1 i b1]
  have l2: "stream_len s2 = stream_len s + (\<Sum>d\<leftarrow>cs. int (length d))" .
  from l2 i b1 sum_lengths_nonneg [of cs] have i2: "in_int (stream_len s2)"
    by (simp add: in_int_def)
  from b l2 have b2: "stream_len s2 + (\<Sum>d\<leftarrow>ds. int (length d)) \<le> INT_MAX"
    by simp
  from write_chunks_len_exact [OF 2 i2 b2]
  have l3: "stream_len s3 = stream_len s2 + (\<Sum>d\<leftarrow>ds. int (length d))" .
  from write_chunks_ptr [OF 1] have p: "stream_ptr s2 = stream_ptr s" .
  from l2 show "stream_len s2 = stream_len s + (\<Sum>d\<leftarrow>cs. int (length d))" .
  from l2 sum_lengths_nonneg [of cs] show "stream_len s \<le> stream_len s2" by simp
  from l3 sum_lengths_nonneg [of ds] show "stream_len s2 \<le> stream_len s3" by simp
  from write_chunks_frame [OF 2 i2 b2] p
  show "\<forall>a. a < stream_ptr s + stream_len s2 \<longrightarrow> m3 a = m2 a" by simp
qed

theorem user_write_data_appends_witness:
  "user_write_data (store0, sink0) [137, 80] =
     (memcpy store0 200 [137, 80], \<lparr>stream_ptr = 200, stream_len = 2\<rparr>) \<and>
   write_chunks (store0, sink0) ([[137, 80]] @ [[78]]) =
     (memcpy (memcpy store0 200 [137, 80]) 202 [78], \<lparr>stream_ptr = 200, stream_len = 3\<rparr>) \<and>
   write_chunks (store0, sink0) [[137, 80]] =
     (memcpy store0 200 [137, 80], \<lparr>stream_ptr = 200, stream_len = 2\<rparr>) \<and>
   in_int (stream_len sink0) \<and> in_int (stream_len sink0 + 2) \<and>
   stream_len sink0 + (\<Sum>d\<leftarrow>[[137, 80]] @ [[78 :: byte]]. int (length d)) \<le> INT_MAX \<and>
   stream_len \<lparr>stream_ptr = 200, stream_len = 2\<rparr> = stream_len sink0 + 2 \<and>
   memcpy store0 200 [137, 80] 200 = 137 \<and>
   memcpy store0 200 [137, 80] 201 = 80 \<and>
   memcpy store0 200 [137, 80] 199 = store0 199 \<and>
   memcpy (memcpy store0 200 [137, 80]) 202 [78] 200 = memcpy store0 200 [137, 80] 200 \<and>
   memcpy (memcpy store0 200 [137, 80]) 202 [78] 201 = memcpy store0 200 [137, 80] 201"
proof -
  note appends = user_write_data_appends [of store0 sink0 "[137, 80]" "memcpy store0 200 [137, 80]"
      "\<lparr>stream_ptr = 200, stream_len = 2\<rparr>" "[[137, 80]]" "[[78]]"
      "memcpy (memcpy store0 200 [137, 80]) 202 [78]" "\<lparr>stream_ptr = 200, stream_len = 3\<rparr>"
      "memcpy store0 200 [137, 80]" "\<lparr>stream_ptr = 200, stream_len = 2\<rparr>"]
  have p: "stream_ptr sink0 = 200" "stream_len sink0 = 0"
    by (simp_all add: sink0_def)
  have r: "in_int (stream_len sink0)" "in_int (stream_len sink0 + 2)"
    "in_int (stream_len sink0 + int (length [137, 80 :: byte]))"
    "stream_len sink0 + (\<Sum>d\<leftarrow>[[137, 80]] @ [[78 :: byte]]. int (length d)) \<le> INT_MAX"
    by (simp_all add: sink0_def in_int_def INT_MIN_def INT_MAX_def)
  from appends write_one r(3)
  have len: "stream_len \<lparr>stream_ptr = 200, stream_len = 2\<rparr> =
             stream_len sink0 + int (length [137, 80 :: byte])"
    and inside: "\<forall>i<length [137, 80 :: byte].
      memcpy store0 200 [137, 80] (stream_ptr sink0 + stream_len sink0 + int i) = [137, 80] ! i"
    and outside: "\<forall>a. a < stream_ptr sink0 + stream_len sink0 \<or>
        stream_ptr sink0 + stream_len sink0 + int (length [137, 80 :: byte]) \<le> a \<longrightarrow>
        memcpy store0 200 [137, 80] a = store0 a"
    by blast+
  from len have 1: "stream_len \<lparr>stream_ptr = 200, stream_len = 2\<rparr> = stream_len sink0 + 2"
    by simp
  from inside [rule_format, of 0] p have 2: "memcpy store0 200 [137, 80] 200 = 137"
    by simp
  from inside [rule_format, of 1] p have 3: "memcpy store0 200 [137, 80] 201 = 80"
    by simp
  from outside [rule_format, of 199] p have 4: "memcpy store0 200 [137, 80] 199 = store0 199"
    by simp
  from appends write_two write_first r(1,4)
  have "\<forall>a. a < stream_ptr sink0 + stream_len \<lparr>stream_ptr = 200, stream_len = 2\<rparr> \<longrightarrow>
      memcpy (memcpy store0 200 [137, 80]) 202 [78] a = memcpy store0 200 [137, 80] a"
    by blast
  with p
  have kept: "\<forall>a. a < 200 + 2 \<longrightarrow>
      memcpy (memcpy store0 200 [137, 80]) 202 [78] a = memcpy store0 200 [137, 80] a"
    by simp
  from kept [rule_format, of 200]
  have 5: "memcpy (memcpy store0 200 [137, 80]) 202 [78] 200 = memcpy store0 200 [137, 80] 200"
    by simp
  from kept [rule_format, of 201]
  have 6: "memcpy (memcpy store0 200 [137, 80]) 202 [78] 201 = memcpy store0 200 [137, 80] 201"
    by simp
  from write_one write_two write_first r(1,2,4) 1 2 3 4 5 6 show ?thesis by blast
qed

text \<open>
  Claim C4, as stated: the three failure conditions of \<^verbatim>\<open>enc_png\<close> each produce an
  error result distinguishable from one another and from every successful byte-count
  return. When the engine writes \<open>2 ^ 32 - 1\<close> bytes, both structs are allocated and
  nothing faults, the call returns \<open>-1\<close>, the result of a failed allocation of the
  write struct.
\<close>

theorem enc_png_success_returns_error_code_counterexample:
  "create_write_struct_ok engine_full \<and> create_info_struct_ok engine_full \<and>
   Longjmp \<notin> set (snd (snd (enc_png engine_full store0 100 0 4 8 200))) \<and>
   fst (enc_png engine_full store0 100 0 4 8 200) = Return (- 1) \<and>
   fst (enc_png engine_no_write_struct store0 100 0 4 8 200) = Return (- 1)"
proof -
  have ok: "create_write_struct_ok engine_full" "create_info_struct_ok engine_full"
    by (simp_all add: engine_full_def engine_ok_def)
  have run: "Longjmp \<notin> set (snd (snd (enc_png engine_full store0 100 0 4 8 200)))"
    "fst (enc_png engine_full store0 100 0 4 8 200) = Return (- 1)"
    "fst (enc_png engine_no_write_struct store0 100 0 4 8 200) = Return (- 1)"
    by (simp_all add: run_full run_no_write_struct)
  from ok run show ?thesis by blast
qed

text \<open>
  Claim C4, amended: the three failure conditions of \<^verbatim>\<open>enc_png\<close> (the write struct
  cannot be allocated, the info struct cannot be allocated, a fault inside the engine)
  give the results \<open>-1\<close>, \<open>-2\<close> and \<open>-3\<close>, distinct from one another; a
  successful return is not negative, hence distinct from the three, whenever the
  engine has written at most \<^verbatim>\<open>INT_MAX\<close> bytes.
\<close>

theorem enc_png_error_codes_distinct:
  assumes "enc_png x m data width height nbits pngbuf = (out, m', t)"
  shows "(\<not> create_write_struct_ok x \<longrightarrow> out = Return (- 1)) \<and>
         (create_write_struct_ok x \<and> \<not> create_info_struct_ok x \<longrightarrow> out = Return (- 2)) \<and>
         (create_write_struct_ok x \<and> create_info_struct_ok x \<and> Longjmp \<in> set t \<longrightarrow>
            out = Return (- 3)) \<and>
         (create_write_struct_ok x \<and> create_info_struct_ok x \<and> Longjmp \<notin> set t \<and>
          (\<Sum>d\<leftarrow>writes t. int (length d)) \<le> INT_MAX \<longrightarrow>
            (\<forall>r. out = Return r \<longrightarrow> 0 \<le> r))"
  using assms
proof (cases rule: enc_png_cases [where x = x and m = m and data = data and width = width
      and height = height and nbits = nbits and pngbuf = pngbuf])
  case (returned rows chunks m'' mem)
  have z: "in_int (stream_len \<lparr>stream_ptr = pngbuf, stream_len = 0\<rparr>)"
    by (simp add: in_int_def INT_MIN_def INT_MAX_def)
  have "0 \<le> stream_len mem" if "(\<Sum>d\<leftarrow>chunks. int (length d)) \<le> INT_MAX"
    using write_chunks_len_exact [OF returned(4) z] that sum_lengths_nonneg [of chunks]
    by simp
  with returned assms show ?thesis
    by (auto simp: writes_append writes_map_Write)
qed auto

theorem enc_png_error_codes_distinct_witness:
  "\<not> create_write_struct_ok engine_no_write_struct \<and>
   fst (enc_png engine_no_write_struct store0 100 0 4 8 200) = Return (- 1) \<and>
   create_write_struct_ok engine_no_info_struct \<and> \<not> create_info_struct_ok engine_no_info_struct \<and>
   fst (enc_png engine_no_info_struct store0 100 0 4 8 200) = Return (- 2) \<and>
   create_write_struct_ok engine_fault \<and> create_info_struct_ok engine_fault \<and>
   Longjmp \<in> set (snd (snd (enc_png engine_fault store0 100 0 4 8 200))) \<and>
   fst (enc_png engine_fault store0 100 0 4 8 200) = Return (- 3) \<and>
   create_write_struct_ok engine_ok \<and> create_info_struct_ok engine_ok \<and>
   Longjmp \<notin> set (snd (snd (enc_png engine_ok store0 100 0 4 8 200))) \<and>
   (\<Sum>d\<leftarrow>writes (snd (snd (enc_png engine_ok store0 100 0 4 8 200))). int (length d)) \<le> INT_MAX \<and>
   fst (enc_png engine_ok store0 100 0 4 8 200) = Return 3 \<and> (0::int) \<le> 3"
proof -
  have e: "\<not> create_write_struct_ok engine_no_write_struct"
    "create_write_struct_ok engine_no_info_struct" "\<not> create_info_struct_ok engine_no_info_struct"
    "create_write_struct_ok engine_fault" "create_info_struct_ok engine_fault"
    "create_write_struct_ok engine_ok" "create_info_struct_ok engine_ok"
    by (simp_all add: engine_ok_def engine_fault_def engine_no_write_struct_def
        engine_no_info_struct_def)
  have j: "Longjmp \<in> set (snd (snd (enc_png engine_fault store0 100 0 4 8 200)))"
    "Longjmp \<notin> set (snd (snd (enc_png engine_ok store0 100 0 4 8 200)))"
    by (simp_all add: run_fault run_ok)
  have b: "(\<Sum>d\<leftarrow>writes (snd (snd (enc_png engine_ok store0 100 0 4 8 200))). int (length d))
      \<le> INT_MAX"
    by (simp add: run_ok INT_MAX_def)
  have ok: "fst (enc_png engine_ok store0 100 0 4 8 200) = Return 3"
    by (simp add: run_ok)
  have pc: "\<And>p :: outcome \<times> memory \<times> event list. p = (fst p, fst (snd p), snd (snd p))"
    by simp
  from enc_png_error_codes_distinct [OF pc [of "enc_png engine_no_write_struct store0 100 0 4 8 200"]] e
  have 1: "fst (enc_png engine_no_write_struct store0 100 0 4 8 200) = Return (- 1)"
    by blast
  from enc_png_error_codes_distinct [OF pc [of "enc_png engine_no_info_struct store0 100 0 4 8 200"]] e
  have 2: "fst (enc_png engine_no_info_struct store0 100 0 4 8 200) = Return (- 2)"
    by blast
  from enc_png_error_codes_distinct [OF pc [of "enc_png engine_fault store0 100 0 4 8 200"]] e j
  have 3: "fst (enc_png engine_fault store0 100 0 4 8 200) = Return (- 3)"
    by blast
  from enc_png_error_codes_distinct [OF pc [of "enc_png engine_ok store0 100 0 4 8 200"]] e j b ok
  have 4: "(0::int) \<le> 3"
    by blast
  from e j b ok 1 2 3 4 show ?thesis by blast
qed




text \<open>
  Claim C6. For every call to \<^verbatim>\<open>enc_png\<close>, the row-pointer view handed to the engine
  has exactly \<open>height\<close> entries, and entry \<open>i\<close> points at byte offset
  \<open>i * width * (nbits / 8)\<close> of the pixel buffer. The division is C's, which truncates;
  for a height below 1 the loop stores nothing and the view is empty.
\<close>

theorem enc_png_row_pointers:
  assumes "enc_png x m data width height nbits pngbuf = (out, m', t)"
    and "rs \<in> set (row_views t)"
  shows "length rs = nat (load_g2int m height) \<and>
         (\<forall>i. 0 \<le> i \<and> i < load_g2int m height \<longrightarrow>
            rs ! nat i = data + i * load_g2int m width * (load_g2int m nbits sdiv 8))"
proof -
  from assms
  have "fill_rows data (load_g2int m width) (load_g2int m height) (load_g2int m nbits sdiv 8) 0 [] =
      Some rs"
    by (cases rule: enc_png_cases [where x = x and m = m and data = data and width = width
      and height = height and nbits = nbits and pngbuf = pngbuf])
      (auto simp: row_views_append row_views_map_Write)
  from fill_rows_eq [OF this]
  have rs: "rs = map (\<lambda>i. data + i * load_g2int m width * (load_g2int m nbits sdiv 8))
      [0..load_g2int m height - 1]"
    by simp
  show ?thesis unfolding rs by (auto simp: nth_upto)
qed

theorem enc_png_row_pointers_witness:
  "row_views (snd (snd (enc_png engine_ok store_rgb 100 0 4 8 200))) = [[100, 106]] \<and>
   load_g2int store_rgb 0 = 2 \<and> load_g2int store_rgb 4 = 2 \<and> load_g2int store_rgb 8 = 24 \<and>
   length [100, 106 :: int] = nat 2 \<and>
   [100, 106] ! nat 0 = (100::int) + 0 * 2 * (24 sdiv 8) \<and>
   [100, 106] ! nat 1 = (100::int) + 1 * 2 * (24 sdiv 8)"
proof -
  have v: "row_views (snd (snd (enc_png engine_ok store_rgb 100 0 4 8 200))) = [[100, 106]]"
    by (simp add: run_rgb)
  note d = load_store_rgb
  have "[100, 106] \<in> set (row_views
      [Create_write_struct True, Create_info_struct True, Set_write_fn,
       Set_IHDR 2 2 8 PNG_COLOR_TYPE_RGB, Malloc True, Set_rows [100, 106], Write_png,
       Write [137, 80], Write [78], Destroy_write_struct True, Free])"
    by simp
  from enc_png_row_pointers [OF run_rgb this]
  have len: "length [100, 106 :: int] = nat (load_g2int store_rgb 4)"
    and entry: "\<forall>i. 0 \<le> i \<and> i < load_g2int store_rgb 4 \<longrightarrow>
      [100, 106] ! nat i = 100 + i * load_g2int store_rgb 0 * (load_g2int store_rgb 8 sdiv 8)"
    by blast+
  from len d have 1: "length [100, 106 :: int] = nat 2"
    by simp
  from entry [rule_format, of 0] d
  have 2: "[100, 106] ! nat 0 = (100::int) + 0 * 2 * (24 sdiv 8)"
    by simp
  from entry [rule_format, of 1] d
  have 3: "[100, 106] ! nat 1 = (100::int) + 1 * 2 * (24 sdiv 8)"
    by simp
  from v d 1 2 3 show ?thesis by blast
qed

text \<open>
  Claim C7. When the engine's write struct cannot be allocated, \<^verbatim>\<open>enc_png\<close> returns
  the code of the engine initialisation error, \<open>-1\<close>, and has done nothing else: the
  memory is the one it was called with, and the only call made is the failed creation,
  so the write callback never ran.
\<close>

theorem enc_png_engine_init_error:
  assumes "\<not> create_write_struct_ok x"
  shows "enc_png x m data width height nbits pngbuf = (Return (- 1), m, [Create_write_struct False])"
  using assms by (simp add: enc_png_def)

theorem enc_png_engine_init_error_witness:
  "\<not> create_write_struct_ok engine_no_write_struct \<and>
   enc_png engine_no_write_struct store0 100 0 4 8 200 =
     (Return (- 1), store0, [Create_write_struct False])"
proof -
  have no: "\<not> create_write_struct_ok engine_no_write_struct"
    by (simp add: engine_no_write_struct_def engine_ok_def)
  from no enc_png_engine_init_error [OF no, of store0 100 0 4 8 200] show ?thesis
    by blast
qed

text \<open>
  Claim C8. For every input bit depth other than 8, 24 and 32, \<^verbatim>\<open>enc_png\<close> does not
  reject the input: it registers colour type grey with the raw \<open>nbits\<close> as bit depth
  (once both engine structs exist), and unless the engine itself faults a call that
  returns has gone through to the end (it finishes with the destruction of the structs
  and the release of the row pointers) and returns the sink's length, not an error of
  its own.
\<close>

theorem enc_png_other_depths_grayscale:
  assumes "enc_png x m data width height nbits pngbuf = (out, m', t)"
    and "load_g2int m nbits \<notin> {8, 24, 32}"
    and "create_write_struct_ok x" and "create_info_struct_ok x"
  shows "registered t =
           [(png_uint_32 (load_g2int m width), png_uint_32 (load_g2int m height),
             load_g2int m nbits, PNG_COLOR_TYPE_GRAY)] \<and>
         (\<forall>r. out = Return r \<and> Longjmp \<notin> set t \<longrightarrow>
            (\<exists>t'. t = t' @ [Destroy_write_struct True, Free]) \<and>
            r = to_g2int (\<Sum>d\<leftarrow>writes t. int (length d)))"
  using assms
proof (cases rule: enc_png_cases [where x = x and m = m and data = data and width = width
      and height = height and nbits = nbits and pngbuf = pngbuf])
  case (returned rows chunks m'' mem)
  have z: "in_int (stream_len \<lparr>stream_ptr = pngbuf, stream_len = 0\<rparr>)"
    by (simp add: in_int_def INT_MIN_def INT_MAX_def)
  from write_chunks_len [OF returned(4) z]
  have l: "stream_len mem = to_g2int (\<Sum>d\<leftarrow>chunks. int (length d))"
    by simp
  from returned(5) assms(1)
  have t: "t = [Create_write_struct True, Create_info_struct True, Set_write_fn,
      Set_IHDR (png_uint_32 (load_g2int m width)) (png_uint_32 (load_g2int m height))
        (fst (bit_depth_color_type (load_g2int m nbits)))
        (snd (bit_depth_color_type (load_g2int m nbits))),
      Malloc (malloc_ok x), Set_rows rows, Write_png] @ map Write chunks @
      [Destroy_write_struct True, Free]" and out: "out = Return (stream_len mem)"
    by simp_all
  have 1: "registered t =
           [(png_uint_32 (load_g2int m width), png_uint_32 (load_g2int m height),
             load_g2int m nbits, PNG_COLOR_TYPE_GRAY)]"
    unfolding t using assms(2)
    by (simp add: registered_append registered_map_Write bit_depth_color_type_def)
  have 2: "\<exists>t'. t = t' @ [Destroy_write_struct True, Free]"
    unfolding t by (metis append.assoc)
  have 3: "(\<Sum>d\<leftarrow>writes t. int (length d)) = (\<Sum>d\<leftarrow>chunks. int (length d))"
    unfolding t by (simp add: writes_append writes_map_Write)
  from 1 2 3 l out show ?thesis by simp
qed (auto simp: registered_append registered_map_Write bit_depth_color_type_def)

theorem enc_png_other_depths_grayscale_witness:
  "load_g2int store_deep 8 \<notin> {8, 24, 32} \<and>
   create_write_struct_ok engine_ok \<and> create_info_struct_ok engine_ok \<and>
   registered (snd (snd (enc_png engine_ok store_deep 100 0 4 8 200))) =
     [(2, 2, 16, PNG_COLOR_TYPE_GRAY)] \<and>
   fst (enc_png engine_ok store_deep 100 0 4 8 200) = Return 3 \<and>
   Longjmp \<notin> set (snd (snd (enc_png engine_ok store_deep 100 0 4 8 200))) \<and>
   (\<exists>t'. snd (snd (enc_png engine_ok store_deep 100 0 4 8 200)) =
      t' @ [Destroy_write_struct True, Free])"
proof -
  have ok: "create_write_struct_ok engine_ok" "create_info_struct_ok engine_ok"
    by (simp_all add: engine_ok_def)
  have v: "png_uint_32 (load_g2int store_deep 0) = 2" "png_uint_32 (load_g2int store_deep 4) = 2"
    "load_g2int store_deep 8 = 16"
    by (simp_all add: load_store_deep png_uint_32_def)
  from v have n: "load_g2int store_deep 8 \<notin> {8, 24, 32}"
    by simp
  have pc: "\<And>p :: outcome \<times> memory \<times> event list. p = (fst p, fst (snd p), snd (snd p))"
    by simp
  have run: "fst (enc_png engine_ok store_deep 100 0 4 8 200) = Return 3"
    "Longjmp \<notin> set (snd (snd (enc_png engine_ok store_deep 100 0 4 8 200)))"
    by (simp_all add: run_deep)
  from enc_png_other_depths_grayscale
    [OF pc [of "enc_png engine_ok store_deep 100 0 4 8 200"] n ok]
  have reg: "registered (snd (snd (enc_png engine_ok store_deep 100 0 4 8 200))) =
      [(png_uint_32 (load_g2int store_deep 0), png_uint_32 (load_g2int store_deep 4),
        load_g2int store_deep 8, PNG_COLOR_TYPE_GRAY)]"
    and fin: "\<forall>r. fst (enc_png engine_ok store_deep 100 0 4 8 200) = Return r \<and>
        Longjmp \<notin> set (snd (snd (enc_png engine_ok store_deep 100 0 4 8 200))) \<longrightarrow>
        (\<exists>t'. snd (snd (enc_png engine_ok store_deep 100 0 4 8 200)) =
           t' @ [Destroy_write_struct True, Free]) \<and>
        r = to_g2int (\<Sum>d\<leftarrow>writes (snd (snd (enc_png engine_ok store_deep 100 0 4 8 200))).
              int (length d))"
    by blast+
  from reg have 1: "registered (snd (snd (enc_png engine_ok store_deep 100 0 4 8 200))) =
     [(2, 2, 16, PNG_COLOR_TYPE_GRAY)]"
    unfolding v .
  from fin [rule_format, of 3] run
  have 2: "\<exists>t'. snd (snd (enc_png engine_ok store_deep 100 0 4 8 200)) =
      t' @ [Destroy_write_struct True, Free]"
    by blast
  from n ok run 1 2 show ?thesis by blast
qed

text \<open>
  Claim C10, as stated: \<^verbatim>\<open>enc_png\<close> never modifies its inputs; the pixel buffer and the
  pointed-to \<^verbatim>\<open>width\<close>, \<^verbatim>\<open>height\<close> and \<^verbatim>\<open>nbits\<close> are bit-identical before and after
  every call, and only the caller's output buffer changes. Here the pixel buffer is the
  four bytes from address 100 and the output buffer begins at \<open>100 + 2 ^ 31\<close>, far
  above it. The engine writes \<open>2 ^ 31\<close> bytes and then one more: the sink's length
  has wrapped to \<^verbatim>\<open>INT_MIN\<close>, the last byte goes to \<^verbatim>\<open>pngbuf - 2 ^ 31\<close>, and the
  first pixel is replaced.
\<close>

theorem enc_png_modifies_pixels_counterexample:
  "fst (enc_png engine_half_then_one store0 100 0 4 8 2147483748) = Return (- 2147483647) \<and>
   fst (snd (enc_png engine_half_then_one store0 100 0 4 8 2147483748)) 100 \<noteq> store0 100"
proof -
  have r: "fst (enc_png engine_half_then_one store0 100 0 4 8 2147483748) =
      Return (- 2147483647)"
    by (simp add: run_half_then_one)
  have after: "fst (snd (enc_png engine_half_then_one store0 100 0 4 8 2147483748)) 100 = 137"
    by (simp add: run_half_then_one memcpy_def)
  have before: "store0 100 = 10"
    by (simp add: store0_def)
  from r after before show ?thesis by simp
qed

text \<open>
  Claim C10, amended: in every call during which the engine writes at most
  \<^verbatim>\<open>INT_MAX\<close> bytes, on success and on every error path, the only bytes \<^verbatim>\<open>enc_png\<close>
  changes are those from \<^verbatim>\<open>pngbuf\<close> up to the number of bytes written; so every input
  that does not overlap that part of the output buffer is bit-identical before and
  after the call: the pixel buffer (of any extent \<open>n\<close>) and each \<^verbatim>\<open>g2int\<close> object
  \<open>p\<close> among \<^verbatim>\<open>width\<close>, \<^verbatim>\<open>height\<close> and \<^verbatim>\<open>nbits\<close>.
\<close>

theorem enc_png_changes_only_output:
  assumes "enc_png x m data width height nbits pngbuf = (Return r, m', t)"
    and "(\<Sum>d\<leftarrow>writes t. int (length d)) \<le> INT_MAX"
  shows "(\<forall>a. \<not> (pngbuf \<le> a \<and> a < pngbuf + (\<Sum>d\<leftarrow>writes t. int (length d))) \<longrightarrow>
            m' a = m a) \<and>
         ((\<forall>a. data \<le> a \<and> a < data + n \<longrightarrow>
             \<not> (pngbuf \<le> a \<and> a < pngbuf + (\<Sum>d\<leftarrow>writes t. int (length d)))) \<longrightarrow>
          (\<forall>a. data \<le> a \<and> a < data + n \<longrightarrow> m' a = m a)) \<and>
         ((\<forall>a. p \<le> a \<and> a < p + 4 \<longrightarrow>
             \<not> (pngbuf \<le> a \<and> a < pngbuf + (\<Sum>d\<leftarrow>writes t. int (length d)))) \<longrightarrow>
          load_g2int m' p = load_g2int m p)"
proof -
  have z: "in_int (stream_len \<lparr>stream_ptr = pngbuf, stream_len = 0\<rparr>)"
    by (simp add: in_int_def INT_MIN_def INT_MAX_def)
  have frame: "\<forall>a. \<not> (pngbuf \<le> a \<and> a < pngbuf + (\<Sum>d\<leftarrow>writes t. int (length d))) \<longrightarrow>
            m' a = m a"
    using assms
  proof (cases rule: enc_png_cases [where x = x and m = m and data = data and width = width
        and height = height and nbits = nbits and pngbuf = pngbuf])
    case (returned rows chunks m'' mem)
    with assms have w: "writes t = chunks" and m': "m' = m''"
      by (auto simp: writes_append writes_map_Write)
    from assms(2) w have b: "stream_len \<lparr>stream_ptr = pngbuf, stream_len = 0\<rparr> +
        (\<Sum>d\<leftarrow>chunks. int (length d)) \<le> INT_MAX"
      by simp
    from write_chunks_frame [OF returned(4) z b]
    have "\<And>a. a < pngbuf \<or> pngbuf + (\<Sum>d\<leftarrow>chunks. int (length d)) \<le> a \<Longrightarrow> m'' a = m a"
      by simp
    then show ?thesis unfolding w m' by auto
  next
    case (faulted rows chunks m'' mem)
    with assms have w: "writes t = chunks" and m': "m' = m''"
      by (auto simp: writes_append writes_map_Write)
    from assms(2) w have b: "stream_len \<lparr>stream_ptr = pngbuf, stream_len = 0\<rparr> +
        (\<Sum>d\<leftarrow>chunks. int (length d)) \<le> INT_MAX"
      by simp
    from write_chunks_frame [OF faulted(4) z b]
    have "\<And>a. a < pngbuf \<or> pngbuf + (\<Sum>d\<leftarrow>chunks. int (length d)) \<le> a \<Longrightarrow> m'' a = m a"
      by simp
    then show ?thesis unfolding w m' by auto
  qed auto
  have ints: "load_g2int m' p = load_g2int m p"
    if "\<forall>a. p \<le> a \<and> a < p + 4 \<longrightarrow>
        \<not> (pngbuf \<le> a \<and> a < pngbuf + (\<Sum>d\<leftarrow>writes t. int (length d)))"
    using that frame by (intro load_g2int_cong) blast
  from frame ints show ?thesis by blast
qed

theorem enc_png_changes_only_output_witness:
  "fst (enc_png engine_ok store0 100 0 4 8 200) = Return 3 \<and>
   (\<Sum>d\<leftarrow>writes (snd (snd (enc_png engine_ok store0 100 0 4 8 200))). int (length d)) \<le> INT_MAX \<and>
   fst (snd (enc_png engine_ok store0 100 0 4 8 200)) 100 = store0 100 \<and>
   fst (snd (enc_png engine_ok store0 100 0 4 8 200)) 103 = store0 103 \<and>
   fst (snd (enc_png engine_ok store0 100 0 4 8 200)) 203 = store0 203 \<and>
   load_g2int (fst (snd (enc_png engine_ok store0 100 0 4 8 200))) 0 = load_g2int store0 0 \<and>
   load_g2int (fst (snd (enc_png engine_ok store0 100 0 4 8 200))) 8 = load_g2int store0 8"
proof -
  let ?t = "[Create_write_struct True, Create_info_struct True, Set_write_fn,
       Set_IHDR 2 2 8 PNG_COLOR_TYPE_GRAY, Malloc True, Set_rows [100, 102], Write_png,
       Write [137, 80], Write [78], Destroy_write_struct True, Free]"
  let ?m = "memcpy (memcpy store0 200 [137, 80]) 202 [78]"
  have r: "fst (enc_png engine_ok store0 100 0 4 8 200) = Return 3"
    and after: "fst (snd (enc_png engine_ok store0 100 0 4 8 200)) = ?m"
    and t: "snd (snd (enc_png engine_ok store0 100 0 4 8 200)) = ?t"
    by (simp_all add: run_ok)
  have total: "(\<Sum>d\<leftarrow>writes ?t. int (length d)) = 3"
    by simp
  have b: "(\<Sum>d\<leftarrow>writes ?t. int (length d)) \<le> INT_MAX"
    by (simp add: INT_MAX_def)
  note only = enc_png_changes_only_output [OF run_ok b, unfolded total]
  from only [of 4 0]
  have frame: "\<forall>a. \<not> (200 \<le> a \<and> a < (200::int) + 3) \<longrightarrow> ?m a = store0 a"
    and pix: "(\<forall>a. 100 \<le> a \<and> a < 100 + 4 \<longrightarrow> \<not> (200 \<le> a \<and> a < (200::int) + 3)) \<longrightarrow>
      (\<forall>a. 100 \<le> a \<and> a < 100 + 4 \<longrightarrow> ?m a = store0 a)"
    and w: "(\<forall>a. 0 \<le> a \<and> a < 0 + 4 \<longrightarrow> \<not> (200 \<le> a \<and> a < (200::int) + 3)) \<longrightarrow>
      load_g2int ?m 0 = load_g2int store0 0"
    by blast+
  from only [of 4 8]
  have nb: "(\<forall>a. 8 \<le> a \<and> a < 8 + 4 \<longrightarrow> \<not> (200 \<le> a \<and> a < (200::int) + 3)) \<longrightarrow>
      load_g2int ?m 8 = load_g2int store0 8"
    by blast
  from pix have pix': "\<forall>a. 100 \<le> a \<and> a < 100 + 4 \<longrightarrow> ?m a = store0 a"
    by simp
  from pix' [rule_format, of 100] have 1: "?m 100 = store0 100"
    by simp
  from pix' [rule_format, of 103] have 2: "?m 103 = store0 103"
    by simp
  from frame [rule_format, of 203] have 3: "?m 203 = store0 203"
    by simp
  from w have 4: "load_g2int ?m 0 = load_g2int store0 0"
    by simp
  from nb have 5: "load_g2int ?m 8 = load_g2int store0 8"
    by simp
  from r b 1 2 3 4 5 show ?thesis unfolding after t by blast
qed

end
